theory Spec2Isabelle
  imports Complex_Main "HOL-Library.Word"
begin

section \<open>femtoUniversePairTaskTrackTrackSpherHarMultKtExtended\<close>

text \<open>
  A shallow embedding of the analysis task of
  \<^verbatim>\<open>PWGCF/FemtoUniverse/Tasks/femtoUniversePairTaskTrackTrackSpherHarMultKtExtended.cxx\<close>.

  Numbers of C++ type \<^verbatim>\<open>float\<close> and \<^verbatim>\<open>double\<close> are modelled by the reals they
  denote: a comparison of two floating-point numbers is the comparison of these reals, the
  absolute value and the widening of a \<^verbatim>\<open>float\<close> to a \<^verbatim>\<open>double\<close> are exact, and
  every constant the code compares against is kept with its decimal value. The one
  operation of the modelled code that rounds, \<^verbatim>\<open>TMath::Hypot\<close>, is modelled with its
  rounding to double precision. Infinities and the not-a-number value have no counterpart
  in \<^typ>\<open>real\<close>.
\<close>

subsection \<open>Configuration\<close>

text \<open>
  The configurables of the task that the modelled functions read, under their own
  names. The anonymous groups \<^verbatim>\<open>twotracksconfigs\<close>, \<^verbatim>\<open>trackonefilter\<close> and
  \<^verbatim>\<open>tracktwofilter\<close> are flattened into one record.
\<close>

record config =
  ConfNsigmaCombined :: real
  ConfNsigmaTPC :: real
  ConfTOFPtMin :: real
  ConfPDGCodePartOne :: int
  ConfPtLowPart1 :: real
  ConfPtHighPart1 :: real
  ConfChargePart1 :: int
  ConfPDGCodePartTwo :: int
  ConfPtLowPart2 :: real
  ConfPtHighPart2 :: real
  ConfChargePart2 :: int
  ConfNEventsMix :: int
  ConfLMax :: int
  ConfIsCPR :: bool
  cfgProcessPM :: bool
  cfgProcessPP :: bool
  cfgProcessMM :: bool

text \<open>The default values the source gives to these configurables.\<close>

definition default_config :: config where
  "default_config =
     \<lparr> ConfNsigmaCombined = 3.0, ConfNsigmaTPC = 3.0, ConfTOFPtMin = 0.5,
       ConfPDGCodePartOne = 211, ConfPtLowPart1 = 0.14, ConfPtHighPart1 = 1.5,
       ConfChargePart1 = 1,
       ConfPDGCodePartTwo = 211, ConfPtLowPart2 = 0.14, ConfPtHighPart2 = 1.5,
       ConfChargePart2 = - 1,
       ConfNEventsMix = 5, ConfLMax = 2, ConfIsCPR = True,
       cfgProcessPM = False, cfgProcessPP = True, cfgProcessMM = True \<rparr>"

subsection \<open>Particle identification\<close>

text \<open>
  Rounding to double precision (IEEE 754 binary64, round to nearest, ties to even): a
  number of binary exponent \<open>e\<close> is rounded to the nearest multiple of 2 to the power
  \<open>e - 52\<close>.
  Overflow and subnormal numbers are left out: the hypotenuse of two \<^verbatim>\<open>float\<close> values
  is zero or lies well inside the normal range of a \<^verbatim>\<open>double\<close>.
\<close>

definition round_half_even :: "real \<Rightarrow> int" where
  "round_half_even x =
     (let f = \<lfloor>x\<rfloor>
      in if x - of_int f < 1 / 2 then f
         else if x - of_int f > 1 / 2 then f + 1
         else if even f then f else f + 1)"

definition round_to_double :: "real \<Rightarrow> real" where
  "round_to_double r =
     (if r = 0 then 0
      else (let e = \<lfloor>log 2 \<bar>r\<bar>\<rfloor>
            in of_int (round_half_even (r / 2 powr (of_int e - 52))) * 2 powr (of_int e - 52)))"

text \<open>
  \<^verbatim>\<open>TMath::Hypot(x, y)\<close> of ROOT returns \<^verbatim>\<open>hypot(x, y)\<close> of the C library on two
  \<^verbatim>\<open>double\<close> arguments: the length of the hypotenuse as a \<^verbatim>\<open>double\<close>. It is modelled
  as the correctly rounded value, the \<^verbatim>\<open>double\<close> nearest to the exact square root.
\<close>

definition Hypot :: "real \<Rightarrow> real \<Rightarrow> real" where
  "Hypot x y = round_to_double (sqrt (x * x + y * y))"

definition IsProtonNSigma :: "config \<Rightarrow> real \<Rightarrow> real \<Rightarrow> real \<Rightarrow> bool" where
  "IsProtonNSigma cfg mom nsigmaTPCPr nsigmaTOFPr =
     (if mom < ConfTOFPtMin cfg then
        (if \<bar>nsigmaTPCPr\<bar> < ConfNsigmaTPC cfg then True else False)
      else
        (if Hypot nsigmaTOFPr nsigmaTPCPr < ConfNsigmaCombined cfg then True else False))"

definition IsKaonNSigma :: "real \<Rightarrow> real \<Rightarrow> real \<Rightarrow> bool" where
  "IsKaonNSigma mom nsigmaTPCK nsigmaTOFK =
     (if mom < 0.3 then
        (if \<bar>nsigmaTPCK\<bar> < 3.0 then True else False)
      else if mom < 0.45 then
        (if \<bar>nsigmaTPCK\<bar> < 2.0 then True else False)
      else if mom < 0.55 then
        (if \<bar>nsigmaTPCK\<bar> < 1.0 then True else False)
      else if mom < 1.5 then
        (if \<bar>nsigmaTOFK\<bar> < 3.0 \<and> \<bar>nsigmaTPCK\<bar> < 3.0 then True else False)
      else if mom > 1.5 then
        (if \<bar>nsigmaTOFK\<bar> < 2.0 \<and> \<bar>nsigmaTPCK\<bar> < 3.0 then True else False)
      else False)"

definition IsPionNSigma :: "config \<Rightarrow> real \<Rightarrow> real \<Rightarrow> real \<Rightarrow> bool" where
  "IsPionNSigma cfg mom nsigmaTPCPi nsigmaTOFPi =
     (if True then
        (if mom < ConfTOFPtMin cfg then
           (if \<bar>nsigmaTPCPi\<bar> < ConfNsigmaTPC cfg then True else False)
         else
           (if Hypot nsigmaTOFPi nsigmaTPCPi < ConfNsigmaCombined cfg then True else False))
      else False)"

text \<open>
  \<^verbatim>\<open>LOGF(fatal, ...)\<close> reports and aborts the run; it is the only error of the
  modelled code. The report carries the particle number it prints.
\<close>

datatype error = Fatal_wrong_particle_number int

text \<open>
  The \<^verbatim>\<open>switch\<close> over a PDG code that both arms of \<^verbatim>\<open>IsParticleNSigma\<close> repeat;
  its \<^verbatim>\<open>default\<close> returns false.
\<close>

definition switch_PDGCode ::
  "config \<Rightarrow> int \<Rightarrow> real \<Rightarrow> real \<Rightarrow> real \<Rightarrow> real \<Rightarrow> real \<Rightarrow> real \<Rightarrow> real \<Rightarrow> bool" where
  "switch_PDGCode cfg code mom nsigmaTPCPr nsigmaTOFPr nsigmaTPCPi nsigmaTOFPi
       nsigmaTPCK nsigmaTOFK =
     (if code = 2212 \<or> code = - 2212 then IsProtonNSigma cfg mom nsigmaTPCPr nsigmaTOFPr
      else if code = 211 \<or> code = - 211 then IsPionNSigma cfg mom nsigmaTPCPi nsigmaTOFPi
      else if code = 321 \<or> code = - 321 then IsKaonNSigma mom nsigmaTPCK nsigmaTOFK
      else False)"

definition IsParticleNSigma ::
  "config \<Rightarrow> 8 word \<Rightarrow> real \<Rightarrow> real \<Rightarrow> real \<Rightarrow> real \<Rightarrow> real \<Rightarrow> real \<Rightarrow> real \<Rightarrow> error + bool" where
  "IsParticleNSigma cfg particle_number mom nsigmaTPCPr nsigmaTOFPr nsigmaTPCPi nsigmaTOFPi
       nsigmaTPCK nsigmaTOFK =
     (if particle_number = 1 then
        Inr (switch_PDGCode cfg (ConfPDGCodePartOne cfg) mom nsigmaTPCPr nsigmaTOFPr
               nsigmaTPCPi nsigmaTOFPi nsigmaTPCK nsigmaTOFK)
      else if particle_number = 2 then
        Inr (switch_PDGCode cfg (ConfPDGCodePartTwo cfg) mom nsigmaTPCPr nsigmaTOFPr
               nsigmaTPCPi nsigmaTOFPi nsigmaTPCK nsigmaTOFK)
      else Inl (Fatal_wrong_particle_number (sint particle_number)))"

subsection \<open>Tables and external collaborators\<close>

text \<open>The species of \<^verbatim>\<open>o2::track::PID\<close> that the task asks nsigma values for.\<close>

datatype PID = Proton | Pion | Kaon

text \<open>
  A row of the particle table: the columns the task reads. The tables that the process
  functions receive are the filtered ones (\<^verbatim>\<open>trackAdditionalfilter\<close>,
  \<^verbatim>\<open>collV0Mfilter\<close>); the filters are applied before the task sees a row. The nsigma values are the
  already-computed scalar inputs of the upstream producer, one per detector and species.
\<close>

record Particle =
  part_globalIndex :: nat
  part_fdCollisionId :: nat
  part_partType :: "8 word"
  part_sign :: int
  part_pt :: real
  part_p :: real
  tpcNSigmaPr :: real
  tofNSigmaPr :: real
  tpcNSigmaPi :: real
  tofNSigmaPi :: real
  tpcNSigmaKa :: real
  tofNSigmaKa :: real

text \<open>A row of the collision table.\<close>

record Collision =
  col_globalIndex :: nat
  posZ :: real
  multNtr :: int
  magField :: real

text \<open>
  Modelled from the spec: \<^verbatim>\<open>FemtoUniverseTrackSelection::getNsigmaTPC\<close> and
  \<^verbatim>\<open>getNsigmaTOF\<close> are not under src/. The spec's Particle carries its nsigma values
  as inputs, so the accessors read the stored value of the requested species.
\<close>

definition getNsigmaTPC :: "Particle \<Rightarrow> PID \<Rightarrow> real" where
  "getNsigmaTPC part pid =
     (case pid of Proton \<Rightarrow> tpcNSigmaPr part | Pion \<Rightarrow> tpcNSigmaPi part
      | Kaon \<Rightarrow> tpcNSigmaKa part)"

definition getNsigmaTOF :: "Particle \<Rightarrow> PID \<Rightarrow> real" where
  "getNsigmaTOF part pid =
     (case pid of Proton \<Rightarrow> tofNSigmaPr part | Pion \<Rightarrow> tofNSigmaPi part
      | Kaon \<Rightarrow> tofNSigmaKa part)"

text \<open>
  The two values of \<^verbatim>\<open>EventType\<close> (the enumerations of the pair containers and of the
  close-pair rejection both have exactly these).
\<close>

datatype EventType = same | mixed

text \<open>
  What the task uses and does not define is a parameter of the model: the code of the
  particle type \<^verbatim>\<open>kTrack\<close>, the bin of \<^verbatim>\<open>colBinning.getBin\<close>, the close-pair
  rejection, the pair cleaner, \<^verbatim>\<open>FemtoUniverseMath::getkT\<close>, the PDG mass table and
  the values that successive calls of \<^verbatim>\<open>TRandom2::Rndm\<close> return.
\<close>

record framework =
  kTrack :: "8 word"
  getBin :: "real \<Rightarrow> int \<Rightarrow> int"
  isClosePair :: "Particle \<Rightarrow> Particle \<Rightarrow> Particle list \<Rightarrow> real \<Rightarrow> EventType \<Rightarrow> bool"
  isCleanPair :: "Particle \<Rightarrow> Particle \<Rightarrow> Particle list \<Rightarrow> bool"
  getkT :: "Particle \<Rightarrow> real \<Rightarrow> Particle \<Rightarrow> real \<Rightarrow> real"
  Mass :: "int \<Rightarrow> real"
  Rndm :: "nat \<Rightarrow> real"

text \<open>\<^verbatim>\<open>mass1\<close> and \<^verbatim>\<open>mass2\<close> as \<^verbatim>\<open>init\<close> sets them.\<close>

definition mass1 :: "config \<Rightarrow> framework \<Rightarrow> real" where
  "mass1 cfg fw = Mass fw (ConfPDGCodePartOne cfg)"

definition mass2 :: "config \<Rightarrow> framework \<Rightarrow> real" where
  "mass2 cfg fw = Mass fw (ConfPDGCodePartTwo cfg)"

text \<open>The partitions \<^verbatim>\<open>partsOne\<close> and \<^verbatim>\<open>partsTwo\<close>, and the slice of one collision.\<close>

definition partsOne :: "config \<Rightarrow> framework \<Rightarrow> Particle list \<Rightarrow> Particle list" where
  "partsOne cfg fw parts =
     filter (\<lambda>x. part_partType x = kTrack fw \<and> part_sign x = ConfChargePart1 cfg
                 \<and> part_pt x < ConfPtHighPart1 cfg \<and> part_pt x > ConfPtLowPart1 cfg) parts"

definition partsTwo :: "config \<Rightarrow> framework \<Rightarrow> Particle list \<Rightarrow> Particle list" where
  "partsTwo cfg fw parts =
     filter (\<lambda>x. part_partType x = kTrack fw \<and> part_sign x = ConfChargePart2 cfg
                 \<and> part_pt x < ConfPtHighPart2 cfg \<and> part_pt x > ConfPtLowPart2 cfg) parts"

definition sliceByCached :: "Particle list \<Rightarrow> nat \<Rightarrow> Particle list" where
  "sliceByCached table collisionId = filter (\<lambda>x. part_fdCollisionId x = collisionId) table"

subsection \<open>Combination policies\<close>

text \<open>
  Modelled from the spec: \<^verbatim>\<open>CombinationsFullIndexPolicy\<close> and
  \<^verbatim>\<open>CombinationsStrictlyUpperIndexPolicy\<close> (ASoAHelpers of the framework) are not under
  src/. FullCross is every \<open>(i \<in> A, j \<in> B)\<close>; StrictUpper is every \<open>(i, j)\<close> with
  \<open>i < j\<close> drawn from a single set; the order is that of the two inputs crossed or
  triangulated by index.
\<close>

definition FullIndex :: "nat \<Rightarrow> nat \<Rightarrow> (nat \<times> nat) list" where
  "FullIndex n m = concat (map (\<lambda>i. map (Pair i) [0..<m]) [0..<n])"

definition StrictlyUpperIndex :: "nat \<Rightarrow> (nat \<times> nat) list" where
  "StrictlyUpperIndex n = concat (map (\<lambda>i. map (Pair i) [Suc i..<n]) [0..<n])"

definition CombinationsFullIndexPolicy :: "'a list \<Rightarrow> 'b list \<Rightarrow> ('a \<times> 'b) list" where
  "CombinationsFullIndexPolicy A B =
     map (\<lambda>(i, j). (A ! i, B ! j)) (FullIndex (length A) (length B))"

definition CombinationsStrictlyUpperIndexPolicy :: "'a list \<Rightarrow> 'a list \<Rightarrow> ('a \<times> 'a) list" where
  "CombinationsStrictlyUpperIndexPolicy A B =
     map (\<lambda>(i, j). (A ! i, B ! j)) (StrictlyUpperIndex (min (length A) (length B)))"

subsection \<open>The mixing pool\<close>

text \<open>
  Modelled from the spec: \<^verbatim>\<open>soa::selfCombinations\<close> (ASoAHelpers of the framework) is
  not under src/. The spec's MixingPool owns, per bin, a buffer of up to
  \<open>mixingDepth\<close> events in insertion order; \<open>windowedPairs\<close> pairs a new event with
  the at most \<open>mixingDepth\<close> most recently inserted entries of its bin, and
  \<open>insert\<close> appends the event and evicts the oldest entry when the size exceeds
  \<open>mixingDepth\<close>. The spec clamps out-of-range values to an edge bin, so no event is
  left out; the outsider category that the call passes is carried and not used.
\<close>

type_synonym 'e pool = "int \<Rightarrow> 'e list"

definition most_recent :: "nat \<Rightarrow> 'e list \<Rightarrow> 'e list" where
  "most_recent mixingDepth buffer = drop (length buffer - mixingDepth) buffer"

definition windowedPairs :: "('e \<Rightarrow> int) \<Rightarrow> nat \<Rightarrow> 'e pool \<Rightarrow> 'e \<Rightarrow> ('e \<times> 'e) list" where
  "windowedPairs binOf mixingDepth pool newEvent =
     map (Pair newEvent) (most_recent mixingDepth (pool (binOf newEvent)))"

definition insert_event :: "('e \<Rightarrow> int) \<Rightarrow> nat \<Rightarrow> 'e \<Rightarrow> 'e pool \<Rightarrow> 'e pool" where
  "insert_event binOf mixingDepth event pool =
     pool (binOf event := most_recent mixingDepth (pool (binOf event) @ [event]))"

fun mix_events :: "('e \<Rightarrow> int) \<Rightarrow> nat \<Rightarrow> 'e pool \<Rightarrow> 'e list \<Rightarrow> ('e \<times> 'e) list" where
  "mix_events binOf mixingDepth pool [] = []"
| "mix_events binOf mixingDepth pool (event # events) =
     windowedPairs binOf mixingDepth pool event
     @ mix_events binOf mixingDepth (insert_event binOf mixingDepth event pool) events"

definition selfCombinations :: "('e \<Rightarrow> int) \<Rightarrow> int \<Rightarrow> int \<Rightarrow> 'e list \<Rightarrow> ('e \<times> 'e) list" where
  "selfCombinations binOf categoryNeighbours outsider table =
     mix_events binOf (nat categoryNeighbours) (\<lambda>bin. []) table"

subsection \<open>Output objects and the state of a run\<close>

text \<open>The six pair containers of the task.\<close>

datatype Container =
    sameEventMultCont | mixedEventMultCont
  | sameEventMultContPP | mixedEventMultContPP
  | sameEventMultContMM | mixedEventMultContMM

text \<open>
  The containers and histograms are not under src/; what the task does to them is the
  sequence of calls it makes, with their arguments.
\<close>

datatype call =
    fill_mult_NumDen Container Particle Particle EventType int int real
  | fill_mult_kT_Cov Container EventType int
  | trackHistoPartOne_fillQA Particle
  | trackHistoPartTwo_fillQA Particle
  | eventHisto_fillQA Collision
  | fill_hSECollisionBins int
  | fill_hMECollisionBins int

text \<open>
  The state threaded through a run: the calls made so far, in order, and the number of
  random draws made so far.
\<close>

record state =
  calls :: "call list"
  draws :: nat

definition emit :: "call \<Rightarrow> state \<Rightarrow> state" where
  "emit c s = s\<lparr>calls := calls s @ [c]\<rparr>"

text \<open>A range-based \<^verbatim>\<open>for\<close> loop whose body may abort the run.\<close>

fun for_each :: "('a \<Rightarrow> state \<Rightarrow> error + state) \<Rightarrow> 'a list \<Rightarrow> state \<Rightarrow> error + state" where
  "for_each body [] s = Inr s"
| "for_each body (x # xs) s =
     (case body x s of Inl e \<Rightarrow> Inl e | Inr s' \<Rightarrow> for_each body xs s')"

definition and_then :: "error + state \<Rightarrow> (state \<Rightarrow> error + state) \<Rightarrow> error + state" where
  "and_then r f = (case r of Inl e \<Rightarrow> Inl e | Inr s \<Rightarrow> f s)"

subsection \<open>Same-event processing\<close>

text \<open>
  The call \<^verbatim>\<open>IsParticleNSigma((int8_t)n, part.p(), trackCuts.getNsigmaTPC(part, Proton),
  ..., trackCuts.getNsigmaTOF(part, Kaon))\<close> that the loops repeat.
\<close>

definition IsParticleNSigma_of :: "config \<Rightarrow> 8 word \<Rightarrow> Particle \<Rightarrow> error + bool" where
  "IsParticleNSigma_of cfg particle_number part =
     IsParticleNSigma cfg particle_number (part_p part)
       (getNsigmaTPC part Proton) (getNsigmaTOF part Proton)
       (getNsigmaTPC part Pion) (getNsigmaTOF part Pion)
       (getNsigmaTPC part Kaon) (getNsigmaTOF part Kaon)"

definition fillCollision :: "framework \<Rightarrow> Collision \<Rightarrow> state \<Rightarrow> state" where
  "fillCollision fw col s =
     emit (eventHisto_fillQA col)
       (emit (fill_hSECollisionBins (getBin fw (posZ col) (multNtr col))) s)"

text \<open>The bodies of the two QA loops of \<^verbatim>\<open>doSameEvent\<close>.\<close>

definition doSameEvent_QA_One :: "config \<Rightarrow> Particle \<Rightarrow> state \<Rightarrow> error + state" where
  "doSameEvent_QA_One cfg part s =
     (case IsParticleNSigma_of cfg 1 part of
        Inl e \<Rightarrow> Inl e
      | Inr ok \<Rightarrow> if \<not> ok then Inr s else Inr (emit (trackHistoPartOne_fillQA part) s))"

definition doSameEvent_QA_Two :: "config \<Rightarrow> Particle \<Rightarrow> state \<Rightarrow> error + state" where
  "doSameEvent_QA_Two cfg part s =
     (case IsParticleNSigma_of cfg 2 part of
        Inl e \<Rightarrow> Inl e
      | Inr ok \<Rightarrow> if \<not> ok then Inr s else Inr (emit (trackHistoPartTwo_fillQA part) s))"

text \<open>The body of the loop over non-identical pairs (\<^verbatim>\<open>ContType == 1\<close>).\<close>

definition doSameEvent_pair_Full ::
  "config \<Rightarrow> framework \<Rightarrow> Particle list \<Rightarrow> real \<Rightarrow> int \<Rightarrow> Particle \<times> Particle
     \<Rightarrow> state \<Rightarrow> error + state" where
  "doSameEvent_pair_Full cfg fw parts magFieldTesla multCol pair s =
     (case pair of (p1, p2) \<Rightarrow>
       (case IsParticleNSigma_of cfg 1 p1 of
          Inl e \<Rightarrow> Inl e
        | Inr ok1 \<Rightarrow>
            if \<not> ok1 then Inr s
            else (case IsParticleNSigma_of cfg 2 p2 of
              Inl e \<Rightarrow> Inl e
            | Inr ok2 \<Rightarrow>
                if \<not> ok2 then Inr s
                else if ConfIsCPR cfg \<and> isClosePair fw p1 p2 parts magFieldTesla same then Inr s
                else if \<not> isCleanPair fw p1 p2 parts then Inr s
                else
                  (let kT = getkT fw p1 (mass1 cfg fw) p2 (mass2 cfg fw)
                   in Inr (emit (fill_mult_NumDen sameEventMultCont p1 p2 same 2 multCol kT) s)))))"

text \<open>
  The body of the loop over identical pairs (\<^verbatim>\<open>ContType\<close> other than 1). A new
  generator is made for every pair that reaches the \<^verbatim>\<open>switch\<close>; cases 2 and 3 draw
  from it once.
\<close>

definition doSameEvent_pair_StrictlyUpper ::
  "config \<Rightarrow> framework \<Rightarrow> Particle list \<Rightarrow> real \<Rightarrow> int \<Rightarrow> int \<Rightarrow> Particle \<times> Particle
     \<Rightarrow> state \<Rightarrow> error + state" where
  "doSameEvent_pair_StrictlyUpper cfg fw parts magFieldTesla multCol ContType pair s =
     (case pair of (p1, p2) \<Rightarrow>
       (case IsParticleNSigma_of cfg 2 p1 of
          Inl e \<Rightarrow> Inl e
        | Inr ok1 \<Rightarrow>
            if \<not> ok1 then Inr s
            else (case IsParticleNSigma_of cfg 2 p2 of
              Inl e \<Rightarrow> Inl e
            | Inr ok2 \<Rightarrow>
                if \<not> ok2 then Inr s
                else if ConfIsCPR cfg \<and> isClosePair fw p1 p2 parts magFieldTesla same then Inr s
                else if \<not> isCleanPair fw p1 p2 parts then Inr s
                else
                  (let kT = getkT fw p1 (mass1 cfg fw) p2 (mass2 cfg fw)
                   in if ContType = 2 then
                        (let rand = Rndm fw (draws s); s' = s\<lparr>draws := Suc (draws s)\<rparr>
                         in if rand > 0.5 then
                              Inr (emit (fill_mult_NumDen sameEventMultContPP p1 p2 same 2 multCol kT) s')
                            else if rand \<le> 0.5 then
                              Inr (emit (fill_mult_NumDen sameEventMultContPP p2 p1 same 2 multCol kT) s')
                            else Inr s')
                      else if ContType = 3 then
                        (let rand = Rndm fw (draws s); s' = s\<lparr>draws := Suc (draws s)\<rparr>
                         in if rand > 0.5 then
                              Inr (emit (fill_mult_NumDen sameEventMultContMM p1 p2 same 2 multCol kT) s')
                            else if rand \<le> 0.5 then
                              Inr (emit (fill_mult_NumDen sameEventMultContMM p2 p1 same 2 multCol kT) s')
                            else Inr s')
                      else Inr s))))"

definition doSameEvent ::
  "config \<Rightarrow> framework \<Rightarrow> Particle list \<Rightarrow> Particle list \<Rightarrow> Particle list \<Rightarrow> real \<Rightarrow> int
     \<Rightarrow> int \<Rightarrow> bool \<Rightarrow> state \<Rightarrow> error + state" where
  "doSameEvent cfg fw groupPartsOne groupPartsTwo parts magFieldTesla multCol ContType fillQA s =
     and_then
       (if (ContType = 1 \<or> ContType = 2) \<and> fillQA
        then for_each (doSameEvent_QA_One cfg) groupPartsOne s else Inr s)
       (\<lambda>s1. and_then
          (if (ContType = 1 \<or> ContType = 3) \<and> fillQA
           then for_each (doSameEvent_QA_Two cfg) groupPartsTwo s1 else Inr s1)
          (\<lambda>s2.
             if ContType = 1 then
               for_each (doSameEvent_pair_Full cfg fw parts magFieldTesla multCol)
                 (CombinationsFullIndexPolicy groupPartsOne groupPartsTwo) s2
             else
               for_each (doSameEvent_pair_StrictlyUpper cfg fw parts magFieldTesla multCol ContType)
                 (CombinationsStrictlyUpperIndexPolicy groupPartsOne groupPartsOne) s2))"

definition processSameEvent ::
  "config \<Rightarrow> framework \<Rightarrow> Collision \<Rightarrow> Particle list \<Rightarrow> state \<Rightarrow> error + state" where
  "processSameEvent cfg fw col parts s =
     (let s0 = fillCollision fw col s;
          thegroupPartsOne = sliceByCached (partsOne cfg fw parts) (col_globalIndex col);
          thegroupPartsTwo = sliceByCached (partsTwo cfg fw parts) (col_globalIndex col);
          fillQA = True
      in and_then
           (if cfgProcessPM cfg
            then doSameEvent cfg fw thegroupPartsOne thegroupPartsTwo parts (magField col)
                   (multNtr col) 1 fillQA s0
            else Inr s0)
           (\<lambda>s1. and_then
              (if cfgProcessPP cfg
               then doSameEvent cfg fw thegroupPartsOne thegroupPartsOne parts (magField col)
                      (multNtr col) 2 fillQA s1
               else Inr s1)
              (\<lambda>s2.
                 if cfgProcessMM cfg
                 then doSameEvent cfg fw thegroupPartsTwo thegroupPartsTwo parts (magField col)
                        (multNtr col) 3 fillQA s2
                 else Inr s2)))"

subsection \<open>Mixed-event processing\<close>

text \<open>The body of the pair loop of \<^verbatim>\<open>doMixedEvent\<close>.\<close>

definition doMixedEvent_pair ::
  "config \<Rightarrow> framework \<Rightarrow> Particle list \<Rightarrow> real \<Rightarrow> int \<Rightarrow> int \<Rightarrow> Particle \<times> Particle
     \<Rightarrow> state \<Rightarrow> error + state" where
  "doMixedEvent_pair cfg fw parts magFieldTesla multCol ContType pair s =
     (case pair of (p1, p2) \<Rightarrow>
       (case IsParticleNSigma_of cfg 2 p1 of
          Inl e \<Rightarrow> Inl e
        | Inr ok1 \<Rightarrow>
            if \<not> ok1 then Inr s
            else (case IsParticleNSigma_of cfg 2 p2 of
              Inl e \<Rightarrow> Inl e
            | Inr ok2 \<Rightarrow>
                if \<not> ok2 then Inr s
                else if ConfIsCPR cfg \<and> isClosePair fw p1 p2 parts magFieldTesla mixed then Inr s
                else
                  (let kT = getkT fw p1 (mass1 cfg fw) p2 (mass2 cfg fw)
                   in if ContType = 1 then
                        Inr (emit (fill_mult_NumDen mixedEventMultCont p1 p2 mixed 2 multCol kT) s)
                      else if ContType = 2 then
                        Inr (emit (fill_mult_NumDen mixedEventMultContPP p1 p2 mixed 2 multCol kT) s)
                      else if ContType = 3 then
                        Inr (emit (fill_mult_NumDen mixedEventMultContMM p1 p2 mixed 2 multCol kT) s)
                      else Inr s))))"

definition doMixedEvent ::
  "config \<Rightarrow> framework \<Rightarrow> Particle list \<Rightarrow> Particle list \<Rightarrow> Particle list \<Rightarrow> real \<Rightarrow> int
     \<Rightarrow> int \<Rightarrow> state \<Rightarrow> error + state" where
  "doMixedEvent cfg fw groupPartsOne groupPartsTwo parts magFieldTesla multCol ContType s =
     for_each (doMixedEvent_pair cfg fw parts magFieldTesla multCol ContType)
       (CombinationsFullIndexPolicy groupPartsOne groupPartsTwo) s"

text \<open>The body of the loop of \<^verbatim>\<open>processMixedEvent\<close> over the pairs of collisions.\<close>

definition processMixedEvent_pair ::
  "config \<Rightarrow> framework \<Rightarrow> Particle list \<Rightarrow> Collision \<times> Collision \<Rightarrow> state \<Rightarrow> error + state" where
  "processMixedEvent_pair cfg fw parts cpair s =
     (case cpair of (collision1, collision2) \<Rightarrow>
       (let multiplicityCol = multNtr collision1;
            s0 = emit (fill_hMECollisionBins (getBin fw (posZ collision1) multiplicityCol)) s;
            magFieldTesla1 = magField collision1;
            magFieldTesla2 = magField collision2
        in if magFieldTesla1 \<noteq> magFieldTesla2 then Inr s0
           else
             and_then
               (if cfgProcessPM cfg then
                  doMixedEvent cfg fw
                    (sliceByCached (partsOne cfg fw parts) (col_globalIndex collision1))
                    (sliceByCached (partsTwo cfg fw parts) (col_globalIndex collision2))
                    parts magFieldTesla1 multiplicityCol 1 s0
                else Inr s0)
               (\<lambda>s1. and_then
                  (if cfgProcessPP cfg then
                     doMixedEvent cfg fw
                       (sliceByCached (partsOne cfg fw parts) (col_globalIndex collision1))
                       (sliceByCached (partsOne cfg fw parts) (col_globalIndex collision2))
                       parts magFieldTesla1 multiplicityCol 2 s1
                   else Inr s1)
                  (\<lambda>s2.
                     if cfgProcessMM cfg then
                       doMixedEvent cfg fw
                         (sliceByCached (partsTwo cfg fw parts) (col_globalIndex collision1))
                         (sliceByCached (partsTwo cfg fw parts) (col_globalIndex collision2))
                         parts magFieldTesla1 multiplicityCol 3 s2
                     else Inr s2))))"

definition processMixedEvent ::
  "config \<Rightarrow> framework \<Rightarrow> Collision list \<Rightarrow> Particle list \<Rightarrow> state \<Rightarrow> error + state" where
  "processMixedEvent cfg fw cols parts s =
     for_each (processMixedEvent_pair cfg fw parts)
       (selfCombinations (\<lambda>col. getBin fw (posZ col) (multNtr col)) 5 (- 1) cols) s"

subsection \<open>Covariance\<close>

text \<open>
  The value a 32-bit \<^verbatim>\<open>int\<close> holds after an arithmetic result is reduced to 32 bits
  in two's complement, as the compiled code does when \<^verbatim>\<open>(ConfLMax + 1) * (ConfLMax + 1)\<close>
  leaves the range of \<^verbatim>\<open>int\<close>.
\<close>

definition int32 :: "int \<Rightarrow> int" where
  "int32 x = sint (word_of_int x :: 32 word)"

definition processCov ::
  "config \<Rightarrow> Collision \<Rightarrow> Particle list \<Rightarrow> state \<Rightarrow> error + state" where
  "processCov cfg col parts s =
     (let JMax = int32 ((ConfLMax cfg + 1) * (ConfLMax cfg + 1))
      in if cfgProcessMM cfg then
           Inr (emit (fill_mult_kT_Cov mixedEventMultContMM mixed JMax)
                  (emit (fill_mult_kT_Cov sameEventMultContMM same JMax) s))
         else if cfgProcessPP cfg then
           Inr (emit (fill_mult_kT_Cov mixedEventMultContPP mixed JMax)
                  (emit (fill_mult_kT_Cov sameEventMultContPP same JMax) s))
         else if cfgProcessPM cfg then
           Inr (emit (fill_mult_kT_Cov mixedEventMultCont mixed JMax)
                  (emit (fill_mult_kT_Cov sameEventMultCont same JMax) s))
         else Inr s)"

text \<open>The calls of \<^verbatim>\<open>fill_mult_kT_Cov\<close> among the calls made so far.\<close>

definition covariance_calls :: "state \<Rightarrow> call list" where
  "covariance_calls s =
     filter (\<lambda>c. case c of fill_mult_kT_Cov cont t j \<Rightarrow> True | _ \<Rightarrow> False) (calls s)"

subsection \<open>What a same-sign pass is to call\<close>

text \<open>
  The terms in which the outcome of the loop over identical pairs is stated: a pair
  passes when both particles pass the PID gate the loop applies and the pair is neither
  rejected as a close pair nor as unclean; the passing pairs of a group are those of its
  StrictUpper enumeration, in its order; the fill of the pair that makes draw number
  \<open>k\<close> has the particles in the order \<open>(p1, p2)\<close> when that draw is above 0.5 and
  \<open>(p2, p1)\<close> otherwise; the QA calls are those of the particles that pass the gate of
  the QA loop.
\<close>

definition passes_same_event_cuts ::
  "config \<Rightarrow> framework \<Rightarrow> Particle list \<Rightarrow> real \<Rightarrow> Particle \<times> Particle \<Rightarrow> bool" where
  "passes_same_event_cuts cfg fw parts magFieldTesla pair =
     (case pair of (p1, p2) \<Rightarrow>
        IsParticleNSigma_of cfg 2 p1 = Inr True \<and> IsParticleNSigma_of cfg 2 p2 = Inr True
        \<and> \<not> (ConfIsCPR cfg \<and> isClosePair fw p1 p2 parts magFieldTesla same)
        \<and> isCleanPair fw p1 p2 parts)"

definition same_sign_fill ::
  "config \<Rightarrow> framework \<Rightarrow> int \<Rightarrow> int \<Rightarrow> nat \<Rightarrow> Particle \<times> Particle \<Rightarrow> call" where
  "same_sign_fill cfg fw multCol ContType k pair =
     (case pair of (p1, p2) \<Rightarrow>
        fill_mult_NumDen
          (if ContType = 2 then sameEventMultContPP else sameEventMultContMM)
          (if Rndm fw k > 0.5 then p1 else p2)
          (if Rndm fw k > 0.5 then p2 else p1)
          same 2 multCol (getkT fw p1 (mass1 cfg fw) p2 (mass2 cfg fw)))"

fun same_sign_fills ::
  "config \<Rightarrow> framework \<Rightarrow> int \<Rightarrow> int \<Rightarrow> nat \<Rightarrow> (Particle \<times> Particle) list \<Rightarrow> call list" where
  "same_sign_fills cfg fw multCol ContType k [] = []"
| "same_sign_fills cfg fw multCol ContType k (pair # pairs) =
     same_sign_fill cfg fw multCol ContType k pair
     # same_sign_fills cfg fw multCol ContType (Suc k) pairs"

definition same_sign_QA :: "config \<Rightarrow> int \<Rightarrow> bool \<Rightarrow> Particle list \<Rightarrow> Particle list \<Rightarrow> call list" where
  "same_sign_QA cfg ContType fillQA groupPartsOne groupPartsTwo =
     (if \<not> fillQA then []
      else if ContType = 2 then
        map trackHistoPartOne_fillQA
          (filter (\<lambda>part. IsParticleNSigma_of cfg 1 part = Inr True) groupPartsOne)
      else
        map trackHistoPartTwo_fillQA
          (filter (\<lambda>part. IsParticleNSigma_of cfg 2 part = Inr True) groupPartsTwo))"

definition same_sign_passing ::
  "config \<Rightarrow> framework \<Rightarrow> Particle list \<Rightarrow> real \<Rightarrow> Particle list \<Rightarrow> (Particle \<times> Particle) list" where
  "same_sign_passing cfg fw parts magFieldTesla groupParts =
     filter (passes_same_event_cuts cfg fw parts magFieldTesla)
       (CombinationsStrictlyUpperIndexPolicy groupParts groupParts)"

subsection \<open>Concrete inputs\<close>

text \<open>
  Inputs on which the model is evaluated below: collaborators that never reject a pair
  and whose random draws alternate between 0.7 and 0.3,
  particles of momentum 0.3 with chosen pion and kaon nsigma values (and proton nsigma
  values far off), collisions of one similarity bin, and the empty state.
\<close>

definition example_framework :: framework where
  "example_framework =
     \<lparr> kTrack = 0, getBin = (\<lambda>z m. 0),
       isClosePair = (\<lambda>p1 p2 parts magFieldTesla eventType. False),
       isCleanPair = (\<lambda>p1 p2 parts. True),
       getkT = (\<lambda>p1 m1 p2 m2. 0.4),
       Mass = (\<lambda>code. 0.13957),
       Rndm = (\<lambda>n. if even n then 0.7 else 0.3) \<rparr>"

definition example_particle :: "nat \<Rightarrow> nat \<Rightarrow> int \<Rightarrow> real \<Rightarrow> real \<Rightarrow> Particle" where
  "example_particle idx collisionId charge nsigmaPi nsigmaKa =
     \<lparr> part_globalIndex = idx, part_fdCollisionId = collisionId, part_partType = 0,
       part_sign = charge, part_pt = 0.3, part_p = 0.3,
       tpcNSigmaPr = 10, tofNSigmaPr = 10,
       tpcNSigmaPi = nsigmaPi, tofNSigmaPi = 0,
       tpcNSigmaKa = nsigmaKa, tofNSigmaKa = 0 \<rparr>"

definition example_collision :: "nat \<Rightarrow> real \<Rightarrow> Collision" where
  "example_collision idx field =
     \<lparr> col_globalIndex = idx, posZ = 1.0, multNtr = 10, magField = field \<rparr>"

definition empty_state :: state where
  "empty_state = \<lparr> calls = [], draws = 0 \<rparr>"

text \<open>Particle one a pion, particle two a kaon, the opposite-sign channel only.\<close>

definition pion_kaon_config :: config where
  "pion_kaon_config =
     default_config\<lparr>ConfPDGCodePartOne := 211, ConfPDGCodePartTwo := 321,
                    cfgProcessPM := True, cfgProcessPP := False, cfgProcessMM := False\<rparr>"

definition a_pion :: Particle where
  "a_pion = example_particle 1 1 1 0 10"

definition a_kaon :: Particle where
  "a_kaon = example_particle 2 2 (- 1) 10 0"

definition a_positive_kaon :: Particle where
  "a_positive_kaon = example_particle 3 1 1 10 0"

text \<open>
  A mixing depth of 2, the positive same-sign channel only, and four collisions of one
  bin and one field, each with one positive pion.
\<close>

definition depth2_config :: config where
  "depth2_config = default_config\<lparr>ConfNEventsMix := 2, cfgProcessMM := False\<rparr>"

definition E1 :: Collision where "E1 = example_collision 1 0.5"

definition E2 :: Collision where "E2 = example_collision 2 0.5"

definition E3 :: Collision where "E3 = example_collision 3 0.5"

definition E4 :: Collision where "E4 = example_collision 4 0.5"

definition pion1 :: Particle where "pion1 = example_particle 1 1 1 0 10"

definition pion2 :: Particle where "pion2 = example_particle 2 2 1 0 10"

definition pion3 :: Particle where "pion3 = example_particle 3 3 1 0 10"

definition pion4 :: Particle where "pion4 = example_particle 4 4 1 0 10"

text \<open>A second positive pion and two negative pions of the first collision.\<close>

definition pion1b :: Particle where "pion1b = example_particle 5 1 1 0 10"

definition antipion1 :: Particle where "antipion1 = example_particle 6 1 (- 1) 0 10"

definition antipion1b :: Particle where "antipion1b = example_particle 7 1 (- 1) 0 10"

section \<open>Particle admission\<close>

subsection \<open>Values of the rounded hypotenuse\<close>







subsection \<open>Protons\<close>



subsection \<open>Kaons\<close>

text \<open>
  C3. Kaon admission applies five momentum bands with distinct TPC/TOF cutoffs:
  \<open>|nsigmaTPCK| < 3.0\<close> for \<open>mom < 0.3\<close>; \<open>|nsigmaTPCK| < 2.0\<close> for
  \<open>0.3 \<le> mom < 0.45\<close>; \<open>|nsigmaTPCK| < 1.0\<close> for \<open>0.45 \<le> mom < 0.55\<close>;
  \<open>|nsigmaTOFK| < 3.0\<close> and \<open>|nsigmaTPCK| < 3.0\<close> for \<open>0.55 \<le> mom < 1.5\<close>;
  \<open>|nsigmaTOFK| < 2.0\<close> and \<open>|nsigmaTPCK| < 3.0\<close> for \<open>mom > 1.5\<close>. At
  \<open>mom = 0.5\<close> the input \<open>nsigmaTPCK = 1.2\<close> is rejected.
\<close>

theorem IsKaonNSigma_bands:
  "(mom < 0.3 \<longrightarrow>
      IsKaonNSigma mom nsigmaTPCK nsigmaTOFK = (\<bar>nsigmaTPCK\<bar> < 3.0))
   \<and> (0.3 \<le> mom \<and> mom < 0.45 \<longrightarrow>
      IsKaonNSigma mom nsigmaTPCK nsigmaTOFK = (\<bar>nsigmaTPCK\<bar> < 2.0))
   \<and> (0.45 \<le> mom \<and> mom < 0.55 \<longrightarrow>
      IsKaonNSigma mom nsigmaTPCK nsigmaTOFK = (\<bar>nsigmaTPCK\<bar> < 1.0))
   \<and> (0.55 \<le> mom \<and> mom < 1.5 \<longrightarrow>
      IsKaonNSigma mom nsigmaTPCK nsigmaTOFK = (\<bar>nsigmaTOFK\<bar> < 3.0 \<and> \<bar>nsigmaTPCK\<bar> < 3.0))
   \<and> (1.5 < mom \<longrightarrow>
      IsKaonNSigma mom nsigmaTPCK nsigmaTOFK = (\<bar>nsigmaTOFK\<bar> < 2.0 \<and> \<bar>nsigmaTPCK\<bar> < 3.0))
   \<and> \<not> IsKaonNSigma 0.5 1.2 nsigmaTOFK"
  by (simp add: IsKaonNSigma_def)

theorem IsKaonNSigma_bands_witness:
  "((0.2::real) < 0.3 \<and> IsKaonNSigma 0.2 2.5 0 = (\<bar>2.5::real\<bar> < 3.0))
   \<and> ((0.3::real) \<le> 0.4 \<and> (0.4::real) < 0.45 \<and> IsKaonNSigma 0.4 2.5 0 = (\<bar>2.5::real\<bar> < 2.0))
   \<and> ((0.45::real) \<le> 0.5 \<and> (0.5::real) < 0.55 \<and> IsKaonNSigma 0.5 0.5 0 = (\<bar>0.5::real\<bar> < 1.0))
   \<and> ((0.55::real) \<le> 1.0 \<and> (1.0::real) < 1.5
        \<and> IsKaonNSigma 1.0 2.5 2.5 = (\<bar>2.5::real\<bar> < 3.0 \<and> \<bar>2.5::real\<bar> < 3.0))
   \<and> ((1.5::real) < 2.0
        \<and> IsKaonNSigma 2.0 2.5 2.5 = (\<bar>2.5::real\<bar> < 2.0 \<and> \<bar>2.5::real\<bar> < 3.0))"
  using IsKaonNSigma_bands [of "0.2" "2.5" 0] IsKaonNSigma_bands [of "0.4" "2.5" 0]
    IsKaonNSigma_bands [of "0.5" "0.5" 0] IsKaonNSigma_bands [of "1.0" "2.5" "2.5"]
    IsKaonNSigma_bands [of "2.0" "2.5" "2.5"]
  by simp

text \<open>
  C10. Kaon admission at momentum exactly 1.5 returns false for every pair of nsigma
  inputs: the band 0.55 to 1.5 is guarded by \<open>mom < 1.5\<close> and the high band by
  \<open>mom > 1.5\<close>, so \<open>mom = 1.5\<close> reaches the rejecting branch.
\<close>

theorem IsKaonNSigma_at_boundary:
  "IsKaonNSigma 1.5 nsigmaTPCK nsigmaTOFK = False"
  by (simp add: IsKaonNSigma_def)

section \<open>Configuration errors\<close>

text \<open>
  C9 as stated fails on the species code: a PID dispatch on a code other than
  \<open>\<plusminus>2212\<close>, \<open>\<plusminus>211\<close>, \<open>\<plusminus>321\<close> reaches the \<^verbatim>\<open>default\<close> of the switch, which
  returns false without any report. Here particle one is configured as an electron
  (PDG code 11).
\<close>

theorem unsupported_species_not_fatal:
  "IsParticleNSigma (default_config\<lparr>ConfPDGCodePartOne := 11\<rparr>) 1 0.4 0 0 0 0 0 0 = Inr False"
  by (simp add: IsParticleNSigma_def switch_PDGCode_def default_config_def)

text \<open>
  C9, amended. For every call of \<^verbatim>\<open>IsParticleNSigma\<close> with a particle role index
  other than 1 or 2 the run aborts with a fatal report. A PID dispatch on a species
  code other than proton, pion or kaon (PDG \<open>\<plusminus>2212\<close>, \<open>\<plusminus>211\<close>, \<open>\<plusminus>321\<close>) is not fatal:
  for role 1 or 2 the call returns false, so the particle is not admitted.
\<close>

theorem IsParticleNSigma_errors:
  "(particle_number \<noteq> 1 \<and> particle_number \<noteq> 2 \<longrightarrow>
      IsParticleNSigma cfg particle_number mom nsigmaTPCPr nsigmaTOFPr nsigmaTPCPi nsigmaTOFPi
        nsigmaTPCK nsigmaTOFK = Inl (Fatal_wrong_particle_number (sint particle_number)))
   \<and> (code \<notin> {2212, - 2212, 211, - 211, 321, - 321} \<longrightarrow>
      IsParticleNSigma (cfg\<lparr>ConfPDGCodePartOne := code\<rparr>) 1 mom nsigmaTPCPr nsigmaTOFPr
        nsigmaTPCPi nsigmaTOFPi nsigmaTPCK nsigmaTOFK = Inr False
      \<and> IsParticleNSigma (cfg\<lparr>ConfPDGCodePartTwo := code\<rparr>) 2 mom nsigmaTPCPr nsigmaTOFPr
        nsigmaTPCPi nsigmaTOFPi nsigmaTPCK nsigmaTOFK = Inr False)"
  by (simp add: IsParticleNSigma_def switch_PDGCode_def)

theorem IsParticleNSigma_errors_witness:
  "((3::8 word) \<noteq> 1 \<and> (3::8 word) \<noteq> 2
      \<and> IsParticleNSigma default_config 3 0.4 0 0 0 0 0 0 = Inl (Fatal_wrong_particle_number 3))
   \<and> ((11::int) \<notin> {2212, - 2212, 211, - 211, 321, - 321}
      \<and> IsParticleNSigma (default_config\<lparr>ConfPDGCodePartOne := 11\<rparr>) 1 0.4 0 0 0 0 0 0
          = Inr False
      \<and> IsParticleNSigma (default_config\<lparr>ConfPDGCodePartTwo := 11\<rparr>) 2 0.4 0 0 0 0 0 0
          = Inr False)"
  using IsParticleNSigma_errors [of 3 default_config "0.4" 0 0 0 0 0 0 11]
  by simp

section \<open>Combination policies\<close>

lemma length_concat_Pair:
  "length (concat (map (\<lambda>i. map (Pair i) (f i)) ixs)) = sum_list (map (\<lambda>i. length (f i)) ixs)"
  by (induction ixs) simp_all

lemma distinct_concat_Pair:
  "distinct ixs \<Longrightarrow> (\<And>i. i \<in> set ixs \<Longrightarrow> distinct (f i))
     \<Longrightarrow> distinct (concat (map (\<lambda>i. map (Pair i) (f i)) ixs))"
proof (induction ixs)
  case Nil
  then show ?case by simp
next
  case (Cons a ixs)
  have "distinct (map (Pair a) (f a))"
    using Cons.prems(2) by (simp add: distinct_map inj_on_def)
  moreover have "distinct (concat (map (\<lambda>i. map (Pair i) (f i)) ixs))"
    using Cons by simp
  moreover have "set (map (Pair a) (f a)) \<inter> set (concat (map (\<lambda>i. map (Pair i) (f i)) ixs)) = {}"
    using Cons.prems(1) by auto
  ultimately show ?case by simp
qed

lemma count_list_distinct:
  "distinct xs \<Longrightarrow> count_list xs x = (if x \<in> set xs then 1 else 0)"
  by (induction xs) auto

lemma set_StrictlyUpperIndex: "set (StrictlyUpperIndex n) = {(i, j). i < j \<and> j < n}"
  by (force simp: StrictlyUpperIndex_def)

lemma set_FullIndex: "set (FullIndex n m) = {(i, j). i < n \<and> j < m}"
  by (force simp: FullIndex_def)

lemma length_FullIndex: "length (FullIndex n m) = n * m"
  by (simp add: FullIndex_def length_concat_Pair sum_list_triv)

lemma distinct_FullIndex: "distinct (FullIndex n m)"
  unfolding FullIndex_def by (rule distinct_concat_Pair) simp_all

lemma distinct_StrictlyUpperIndex: "distinct (StrictlyUpperIndex n)"
  unfolding StrictlyUpperIndex_def by (rule distinct_concat_Pair) simp_all

lemma gauss_lessThan: "2 * (\<Sum>i<n. i) = n * (n - 1)" for n :: nat
  by (induction n) (auto simp: algebra_simps)

lemma length_StrictlyUpperIndex: "length (StrictlyUpperIndex n) = n * (n - 1) div 2"
proof -
  have "length (StrictlyUpperIndex n) = sum_list (map (\<lambda>i. n - Suc i) [0..<n])"
    by (simp add: StrictlyUpperIndex_def length_concat_Pair)
  also have "\<dots> = (\<Sum>i<n. n - Suc i)"
    by (simp add: interv_sum_list_conv_sum_set_nat atLeast0LessThan)
  also have "\<dots> = (\<Sum>i<n. i)"
    by (rule sum.nat_diff_reindex)
  finally show ?thesis
    using gauss_lessThan [of n] by simp
qed

lemma count_StrictlyUpperIndex:
  "count_list (StrictlyUpperIndex n) (i, j) = (if i < j \<and> j < n then 1 else 0)"
  by (simp add: count_list_distinct distinct_StrictlyUpperIndex set_StrictlyUpperIndex)

lemma count_FullIndex:
  "count_list (FullIndex n m) (i, j) = (if i < n \<and> j < m then 1 else 0)"
  by (simp add: count_list_distinct distinct_FullIndex set_FullIndex)

text \<open>
  C5. The StrictUpper policy applied to a single collection of size \<open>N\<close> enumerates
  exactly \<open>N * (N - 1) / 2\<close> pairs \<open>(i, j)\<close> with \<open>i < j\<close>, each unordered pair
  appearing exactly once and no self-pair \<open>(i, i)\<close>; the FullCross policy applied to
  collections of sizes \<open>N\<close> and \<open>M\<close> enumerates exactly \<open>N * M\<close> index pairs, every
  \<open>(i \<in> A, j \<in> B)\<close> exactly once. The number of occurrences of a pair in the
  enumeration is \<^const>\<open>count_list\<close>.
\<close>

theorem combination_policies_enumerate:
  "length (StrictlyUpperIndex N) = N * (N - 1) div 2
   \<and> count_list (StrictlyUpperIndex N) (i, j) = (if i < j \<and> j < N then 1 else 0)
   \<and> count_list (StrictlyUpperIndex N) (i, j) + count_list (StrictlyUpperIndex N) (j, i)
       = (if i \<noteq> j \<and> i < N \<and> j < N then 1 else 0)
   \<and> count_list (StrictlyUpperIndex N) (i, i) = 0
   \<and> CombinationsStrictlyUpperIndexPolicy A A
       = map (\<lambda>(i, j). (A ! i, A ! j)) (StrictlyUpperIndex (length A))
   \<and> length (CombinationsStrictlyUpperIndexPolicy A A) = length A * (length A - 1) div 2
   \<and> length (FullIndex N M) = N * M
   \<and> count_list (FullIndex N M) (i, k) = (if i < N \<and> k < M then 1 else 0)
   \<and> CombinationsFullIndexPolicy A B
       = map (\<lambda>(i, j). (A ! i, B ! j)) (FullIndex (length A) (length B))
   \<and> length (CombinationsFullIndexPolicy A B) = length A * length B"
proof (intro conjI)
  show "count_list (StrictlyUpperIndex N) (i, j) + count_list (StrictlyUpperIndex N) (j, i)
       = (if i \<noteq> j \<and> i < N \<and> j < N then 1 else 0)"
    by (auto simp: count_StrictlyUpperIndex)
qed (simp_all add: length_StrictlyUpperIndex count_StrictlyUpperIndex length_FullIndex
    count_FullIndex CombinationsStrictlyUpperIndexPolicy_def CombinationsFullIndexPolicy_def)

section \<open>Unfolding the PID gate\<close>

lemmas pid_defs = IsParticleNSigma_of_def IsParticleNSigma_def switch_PDGCode_def
  IsPionNSigma_def IsKaonNSigma_def IsProtonNSigma_def getNsigmaTPC_def getNsigmaTOF_def

section \<open>Mixed-event processing\<close>

text \<open>
  C7. For every mixed-event collision pair whose two events have mismatched
  magnetic-field sign, the pairing is skipped silently: the body of the loop returns
  without an error, and the only call it makes is the fill of the QA histogram
  \<^verbatim>\<open>MixingQA/hMECollisionBins\<close> that precedes the check, so no denominator fill
  occurs for any particle pair and nothing is reported; the loop goes on with the next
  pair of collisions.
\<close>

theorem mismatched_field_sign_skipped:
  assumes "sgn (magField collision1) \<noteq> sgn (magField collision2)"
  shows "processMixedEvent_pair cfg fw parts (collision1, collision2) s =
           Inr (s\<lparr>calls := calls s @
                  [fill_hMECollisionBins (getBin fw (posZ collision1) (multNtr collision1))]\<rparr>)
         \<and> for_each (processMixedEvent_pair cfg fw parts) ((collision1, collision2) # rest) s =
           for_each (processMixedEvent_pair cfg fw parts) rest
             (s\<lparr>calls := calls s @
                  [fill_hMECollisionBins (getBin fw (posZ collision1) (multNtr collision1))]\<rparr>)"
proof -
  from assms have "magField collision1 \<noteq> magField collision2"
    by auto
  then have "processMixedEvent_pair cfg fw parts (collision1, collision2) s =
           Inr (s\<lparr>calls := calls s @
                  [fill_hMECollisionBins (getBin fw (posZ collision1) (multNtr collision1))]\<rparr>)"
    by (simp add: processMixedEvent_pair_def emit_def Let_def)
  then show ?thesis
    by simp
qed

theorem mismatched_field_sign_skipped_witness:
  "sgn (magField (example_collision 1 0.5)) \<noteq> sgn (magField (example_collision 2 (- 0.5)))
   \<and> processMixedEvent_pair pion_kaon_config example_framework [a_pion, a_kaon]
        (example_collision 1 0.5, example_collision 2 (- 0.5)) empty_state =
      Inr \<lparr>calls = [fill_hMECollisionBins 0], draws = 0\<rparr>
   \<and> for_each (processMixedEvent_pair pion_kaon_config example_framework [a_pion, a_kaon])
        [(example_collision 1 0.5, example_collision 2 (- 0.5))] empty_state =
      Inr \<lparr>calls = [fill_hMECollisionBins 0], draws = 0\<rparr>"
proof -
  have h: "sgn (magField (example_collision 1 0.5)) \<noteq> sgn (magField (example_collision 2 (- 0.5)))"
    by (simp add: example_collision_def)
  show ?thesis
    using mismatched_field_sign_skipped [OF h, of pion_kaon_config example_framework
        "[a_pion, a_kaon]" empty_state "[]"] h
    by (simp add: example_framework_def empty_state_def)
qed

lemma Full_single: "CombinationsFullIndexPolicy [a] [b] = [(a, b)]"
  by (simp add: CombinationsFullIndexPolicy_def FullIndex_def)

lemma example_framework_simps:
  "getBin example_framework z m = 0"
  "isClosePair example_framework p1 p2 parts b t = False"
  "getkT example_framework p1 m1 p2 m2 = 0.4"
  by (simp_all add: example_framework_def)

lemma gate_pion_role_one: "IsParticleNSigma_of pion_kaon_config 1 a_pion = Inr True"
  by (simp add: pid_defs pion_kaon_config_def default_config_def example_particle_def a_pion_def)

lemma gate_pion_role_two: "IsParticleNSigma_of pion_kaon_config 2 a_pion = Inr False"
  by (simp add: pid_defs pion_kaon_config_def default_config_def example_particle_def a_pion_def)

lemma gate_kaon_role_two: "IsParticleNSigma_of pion_kaon_config 2 a_kaon = Inr True"
  by (simp add: pid_defs pion_kaon_config_def default_config_def example_particle_def a_kaon_def)

lemma gate_positive_kaon_role_one:
  "IsParticleNSigma_of pion_kaon_config 1 a_positive_kaon = Inr False"
  by (simp add: pid_defs pion_kaon_config_def default_config_def example_particle_def
      a_positive_kaon_def)

lemma gate_positive_kaon_role_two:
  "IsParticleNSigma_of pion_kaon_config 2 a_positive_kaon = Inr True"
  by (simp add: pid_defs pion_kaon_config_def default_config_def example_particle_def
      a_positive_kaon_def)

text \<open>
  C8 says that in the opposite-sign (PM) mixed-event channel the particle of role one is
  PID-gated under \<^verbatim>\<open>ConfPDGCodePartOne\<close> and the particle of role two under
  \<^verbatim>\<open>ConfPDGCodePartTwo\<close>. \<^verbatim>\<open>doMixedEvent\<close> calls \<^verbatim>\<open>IsParticleNSigma\<close> with
  particle number 2 for both, where the non-identical branch of \<^verbatim>\<open>doSameEvent\<close> passes
  1 for the first. With particle one configured as a pion and particle two as a kaon:
  a pion of role one and a kaon of role two, each admitted under its own species, fill
  the same-event container and are dropped by the mixed-event loop; a kaon in role one,
  rejected under the pion hypothesis, is filled by the mixed-event loop.
\<close>

theorem mixed_PM_gates_role_one_as_role_two:
  "IsParticleNSigma_of pion_kaon_config 1 a_pion = Inr True
   \<and> IsParticleNSigma_of pion_kaon_config 2 a_kaon = Inr True
   \<and> doSameEvent pion_kaon_config example_framework [a_pion] [a_kaon] parts 0.5 10 1 False
        empty_state
      = Inr \<lparr>calls = [fill_mult_NumDen sameEventMultCont a_pion a_kaon same 2 10 0.4],
             draws = 0\<rparr>
   \<and> doMixedEvent pion_kaon_config example_framework [a_pion] [a_kaon] parts 0.5 10 1
        empty_state
      = Inr empty_state
   \<and> IsParticleNSigma_of pion_kaon_config 1 a_positive_kaon = Inr False
   \<and> doMixedEvent pion_kaon_config example_framework [a_positive_kaon] [a_kaon] parts 0.5 10 1
        empty_state
      = Inr \<lparr>calls = [fill_mult_NumDen mixedEventMultCont a_positive_kaon a_kaon mixed 2 10 0.4],
             draws = 0\<rparr>"
proof (intro conjI)
  show "doSameEvent pion_kaon_config example_framework [a_pion] [a_kaon] parts 0.5 10 1 False
        empty_state
      = Inr \<lparr>calls = [fill_mult_NumDen sameEventMultCont a_pion a_kaon same 2 10 0.4],
             draws = 0\<rparr>"
    by (simp add: doSameEvent_def doSameEvent_pair_Full_def Full_single and_then_def
        gate_pion_role_one gate_kaon_role_two example_framework_def emit_def empty_state_def)
  show "doMixedEvent pion_kaon_config example_framework [a_pion] [a_kaon] parts 0.5 10 1
        empty_state = Inr empty_state"
    by (simp add: doMixedEvent_def doMixedEvent_pair_def Full_single gate_pion_role_two)
  show "doMixedEvent pion_kaon_config example_framework [a_positive_kaon] [a_kaon] parts 0.5 10 1
        empty_state
      = Inr \<lparr>calls = [fill_mult_NumDen mixedEventMultCont a_positive_kaon a_kaon mixed 2 10 0.4],
             draws = 0\<rparr>"
    by (simp add: doMixedEvent_def doMixedEvent_pair_def Full_single gate_positive_kaon_role_two
        gate_kaon_role_two example_framework_def emit_def empty_state_def)
qed (simp_all add: gate_pion_role_one gate_kaon_role_two gate_positive_kaon_role_one)

section \<open>The mixing window\<close>

text \<open>No function of the mixed-event path reads \<^verbatim>\<open>ConfNEventsMix\<close>.\<close>

lemma IsParticleNSigma_of_ConfNEventsMix:
  "IsParticleNSigma_of (cfg\<lparr>ConfNEventsMix := n\<rparr>) = IsParticleNSigma_of cfg"
  by (rule ext)+ (simp add: pid_defs)

lemma doMixedEvent_ConfNEventsMix:
  "doMixedEvent (cfg\<lparr>ConfNEventsMix := n\<rparr>) = doMixedEvent cfg"
proof -
  have "doMixedEvent_pair (cfg\<lparr>ConfNEventsMix := n\<rparr>) = doMixedEvent_pair cfg"
    unfolding doMixedEvent_pair_def IsParticleNSigma_of_ConfNEventsMix mass1_def mass2_def
    by (simp cong: sum.case_cong prod.case_cong if_cong)
  then show ?thesis
    by (intro ext) (simp add: doMixedEvent_def)
qed

lemma parts_ConfNEventsMix:
  "partsOne (cfg\<lparr>ConfNEventsMix := n\<rparr>) = partsOne cfg"
  "partsTwo (cfg\<lparr>ConfNEventsMix := n\<rparr>) = partsTwo cfg"
  by (rule ext, rule ext, simp add: partsOne_def partsTwo_def)+

lemma processMixedEvent_ConfNEventsMix:
  "processMixedEvent (cfg\<lparr>ConfNEventsMix := n\<rparr>) fw cols parts s =
     processMixedEvent cfg fw cols parts s"
proof -
  have "processMixedEvent_pair (cfg\<lparr>ConfNEventsMix := n\<rparr>) fw parts =
          processMixedEvent_pair cfg fw parts"
    unfolding processMixedEvent_pair_def doMixedEvent_ConfNEventsMix parts_ConfNEventsMix
    by (simp cong: sum.case_cong prod.case_cong if_cong)
  then show ?thesis
    by (simp add: processMixedEvent_def)
qed

lemmas E_defs = E1_def E2_def E3_def E4_def example_collision_def

lemmas pion_defs = pion1_def pion2_def pion3_def pion4_def example_particle_def

lemma selfCombinations_one_bin:
  "selfCombinations (\<lambda>col. b) 5 (- 1) [e1, e2, e3, e4] =
     [(e2, e1), (e3, e1), (e3, e2), (e4, e1), (e4, e2), (e4, e3)]"
  by (simp add: selfCombinations_def windowedPairs_def insert_event_def most_recent_def)

lemma example_slices:
  "sliceByCached (partsOne depth2_config example_framework [pion1, pion2, pion3, pion4])
     (col_globalIndex E1) = [pion1]"
  "sliceByCached (partsOne depth2_config example_framework [pion1, pion2, pion3, pion4])
     (col_globalIndex E2) = [pion2]"
  "sliceByCached (partsOne depth2_config example_framework [pion1, pion2, pion3, pion4])
     (col_globalIndex E3) = [pion3]"
  "sliceByCached (partsOne depth2_config example_framework [pion1, pion2, pion3, pion4])
     (col_globalIndex E4) = [pion4]"
  by (simp_all add: sliceByCached_def partsOne_def depth2_config_def default_config_def
      example_framework_def E_defs pion_defs)

lemma example_gates:
  "IsParticleNSigma_of depth2_config 2 pion1 = Inr True"
  "IsParticleNSigma_of depth2_config 2 pion2 = Inr True"
  "IsParticleNSigma_of depth2_config 2 pion3 = Inr True"
  "IsParticleNSigma_of depth2_config 2 pion4 = Inr True"
  by (simp_all add: pid_defs depth2_config_def default_config_def pion_defs)

lemma example_flags:
  "\<not> cfgProcessPM depth2_config" "cfgProcessPP depth2_config" "\<not> cfgProcessMM depth2_config"
  "ConfIsCPR depth2_config"
  by (simp_all add: depth2_config_def default_config_def)

lemma example_collisions:
  "magField E1 = 0.5" "magField E2 = 0.5" "magField E3 = 0.5" "magField E4 = 0.5"
  "multNtr E1 = 10" "multNtr E2 = 10" "multNtr E3 = 10" "multNtr E4 = 10"
  by (simp_all add: E_defs)

text \<open>
  C1 says that a new event is paired against at most \<open>mixingDepth\<close> prior events of
  its bin, where \<open>mixingDepth\<close> is the configured \<^verbatim>\<open>ConfNEventsMix\<close>, and that
  changing the configured depth changes the window. \<^verbatim>\<open>processMixedEvent\<close> passes the
  literal 5 to \<^verbatim>\<open>selfCombinations\<close>: with \<^verbatim>\<open>ConfNEventsMix = 2\<close> and four events
  of one bin, the fourth event is mixed with all three prior events, the first
  included, and six pairs of events are mixed where a window of two gives five.
\<close>

theorem mixing_window_is_literal_5:
  "ConfNEventsMix depth2_config = 2
   \<and> processMixedEvent depth2_config example_framework [E1, E2, E3, E4]
       [pion1, pion2, pion3, pion4] empty_state =
     Inr \<lparr>calls =
           [fill_hMECollisionBins 0, fill_mult_NumDen mixedEventMultContPP pion2 pion1 mixed 2 10 0.4,
            fill_hMECollisionBins 0, fill_mult_NumDen mixedEventMultContPP pion3 pion1 mixed 2 10 0.4,
            fill_hMECollisionBins 0, fill_mult_NumDen mixedEventMultContPP pion3 pion2 mixed 2 10 0.4,
            fill_hMECollisionBins 0, fill_mult_NumDen mixedEventMultContPP pion4 pion1 mixed 2 10 0.4,
            fill_hMECollisionBins 0, fill_mult_NumDen mixedEventMultContPP pion4 pion2 mixed 2 10 0.4,
            fill_hMECollisionBins 0, fill_mult_NumDen mixedEventMultContPP pion4 pion3 mixed 2 10 0.4],
          draws = 0\<rparr>"
proof
  show "ConfNEventsMix depth2_config = 2"
    by (simp add: depth2_config_def)
  show "processMixedEvent depth2_config example_framework [E1, E2, E3, E4]
       [pion1, pion2, pion3, pion4] empty_state =
     Inr \<lparr>calls =
           [fill_hMECollisionBins 0, fill_mult_NumDen mixedEventMultContPP pion2 pion1 mixed 2 10 0.4,
            fill_hMECollisionBins 0, fill_mult_NumDen mixedEventMultContPP pion3 pion1 mixed 2 10 0.4,
            fill_hMECollisionBins 0, fill_mult_NumDen mixedEventMultContPP pion3 pion2 mixed 2 10 0.4,
            fill_hMECollisionBins 0, fill_mult_NumDen mixedEventMultContPP pion4 pion1 mixed 2 10 0.4,
            fill_hMECollisionBins 0, fill_mult_NumDen mixedEventMultContPP pion4 pion2 mixed 2 10 0.4,
            fill_hMECollisionBins 0, fill_mult_NumDen mixedEventMultContPP pion4 pion3 mixed 2 10 0.4],
          draws = 0\<rparr>"
    by (simp add: processMixedEvent_def selfCombinations_one_bin processMixedEvent_pair_def Let_def
        example_slices example_gates example_flags example_collisions example_framework_simps
        and_then_def doMixedEvent_def doMixedEvent_pair_def Full_single emit_def empty_state_def)
qed

section \<open>Same-event pairs of identical particles\<close>

text \<open>
  With particle number 1 or 2 the PID gate returns a truth value, never the fatal report.
\<close>

lemma gate_one_cases:
  "IsParticleNSigma_of cfg 1 part = Inr True \<or> IsParticleNSigma_of cfg 1 part = Inr False"
  by (simp add: IsParticleNSigma_of_def IsParticleNSigma_def)

lemma gate_two_cases:
  "IsParticleNSigma_of cfg 2 part = Inr True \<or> IsParticleNSigma_of cfg 2 part = Inr False"
  by (simp add: IsParticleNSigma_of_def IsParticleNSigma_def)

lemma pair_StrictlyUpper_passes:
  assumes "ContType = 2 \<or> ContType = 3"
    and "passes_same_event_cuts cfg fw parts magFieldTesla pair"
  shows "doSameEvent_pair_StrictlyUpper cfg fw parts magFieldTesla multCol ContType pair s =
     Inr (s\<lparr>calls := calls s @ [same_sign_fill cfg fw multCol ContType (draws s) pair],
             draws := Suc (draws s)\<rparr>)"
  using assms
  by (cases pair)
    (auto simp: doSameEvent_pair_StrictlyUpper_def passes_same_event_cuts_def same_sign_fill_def
      emit_def Let_def)

lemma pair_StrictlyUpper_fails:
  assumes "\<not> passes_same_event_cuts cfg fw parts magFieldTesla pair"
  shows "doSameEvent_pair_StrictlyUpper cfg fw parts magFieldTesla multCol ContType pair s = Inr s"
proof (cases pair)
  case (Pair p1 p2)
  show ?thesis
    using assms gate_two_cases [of cfg p1] gate_two_cases [of cfg p2] unfolding Pair
    by (auto simp: doSameEvent_pair_StrictlyUpper_def passes_same_event_cuts_def)
qed

lemma loop_StrictlyUpper:
  assumes "ContType = 2 \<or> ContType = 3"
  shows "for_each (doSameEvent_pair_StrictlyUpper cfg fw parts magFieldTesla multCol ContType)
           pairs s =
         Inr (s\<lparr>calls := calls s @
                   same_sign_fills cfg fw multCol ContType (draws s)
                     (filter (passes_same_event_cuts cfg fw parts magFieldTesla) pairs),
                 draws := draws s
                   + length (filter (passes_same_event_cuts cfg fw parts magFieldTesla) pairs)\<rparr>)"
proof (induction pairs arbitrary: s)
  case Nil
  show ?case by simp
next
  case (Cons pair pairs)
  show ?case
  proof (cases "passes_same_event_cuts cfg fw parts magFieldTesla pair")
    case True
    then show ?thesis
      by (simp add: pair_StrictlyUpper_passes [OF assms True] Cons.IH)
  next
    case False
    then show ?thesis
      by (simp add: pair_StrictlyUpper_fails [OF False] Cons.IH)
  qed
qed

lemma QA_One_step:
  "doSameEvent_QA_One cfg part s =
     Inr (if IsParticleNSigma_of cfg 1 part = Inr True
          then s\<lparr>calls := calls s @ [trackHistoPartOne_fillQA part]\<rparr> else s)"
  using gate_one_cases [of cfg part] by (auto simp: doSameEvent_QA_One_def emit_def)

lemma QA_Two_step:
  "doSameEvent_QA_Two cfg part s =
     Inr (if IsParticleNSigma_of cfg 2 part = Inr True
          then s\<lparr>calls := calls s @ [trackHistoPartTwo_fillQA part]\<rparr> else s)"
  using gate_two_cases [of cfg part] by (auto simp: doSameEvent_QA_Two_def emit_def)

lemma loop_QA_One:
  "for_each (doSameEvent_QA_One cfg) groupParts s =
     Inr (s\<lparr>calls := calls s @ map trackHistoPartOne_fillQA
            (filter (\<lambda>part. IsParticleNSigma_of cfg 1 part = Inr True) groupParts)\<rparr>)"
  by (induction groupParts arbitrary: s) (simp_all add: QA_One_step)

lemma loop_QA_Two:
  "for_each (doSameEvent_QA_Two cfg) groupParts s =
     Inr (s\<lparr>calls := calls s @ map trackHistoPartTwo_fillQA
            (filter (\<lambda>part. IsParticleNSigma_of cfg 2 part = Inr True) groupParts)\<rparr>)"
  by (induction groupParts arbitrary: s) (simp_all add: QA_Two_step)

lemma doSameEvent_same_sign:
  assumes "ContType = 2 \<or> ContType = 3"
  shows "doSameEvent cfg fw groupPartsOne groupPartsTwo parts magFieldTesla multCol ContType fillQA s =
     Inr (s\<lparr>calls := calls s
               @ same_sign_QA cfg ContType fillQA groupPartsOne groupPartsTwo
               @ same_sign_fills cfg fw multCol ContType (draws s)
                   (same_sign_passing cfg fw parts magFieldTesla groupPartsOne),
             draws := draws s
               + length (same_sign_passing cfg fw parts magFieldTesla groupPartsOne)\<rparr>)"
  using assms
  by (auto simp: doSameEvent_def and_then_def loop_QA_One loop_QA_Two loop_StrictlyUpper
      same_sign_QA_def same_sign_passing_def)

text \<open>The StrictUpper enumeration of a list, element by element.\<close>

lemma StrictlyUpperIndex_Suc:
  "StrictlyUpperIndex (Suc n) =
     map (Pair 0) [1..<Suc n] @ map (\<lambda>(i, j). (Suc i, Suc j)) (StrictlyUpperIndex n)"
proof -
  have "[0..<Suc n] = 0 # map Suc [0..<n]"
    by (simp add: upt_conv_Cons map_Suc_upt del: upt_Suc)
  then have "StrictlyUpperIndex (Suc n) =
      map (Pair 0) [1..<Suc n] @ concat (map (\<lambda>i. map (Pair (Suc i)) [Suc (Suc i)..<Suc n]) [0..<n])"
    unfolding StrictlyUpperIndex_def by (simp add: comp_def del: upt_Suc)
  also have "concat (map (\<lambda>i. map (Pair (Suc i)) [Suc (Suc i)..<Suc n]) [0..<n]) =
      map (\<lambda>(i, j). (Suc i, Suc j)) (StrictlyUpperIndex n)"
    unfolding StrictlyUpperIndex_def
    by (simp add: map_concat comp_def map_Suc_upt [symmetric] del: upt_Suc)
  finally show ?thesis .
qed

lemma CombinationsStrictlyUpperIndexPolicy_Cons:
  "CombinationsStrictlyUpperIndexPolicy (a # A) (a # A) =
     map (Pair a) A @ CombinationsStrictlyUpperIndexPolicy A A"
proof -
  have "map (\<lambda>x. (a, A ! x)) [0..<length A] = map (Pair a) (map ((!) A) [0..<length A])"
    by (simp add: comp_def)
  then have "map (\<lambda>(i, j). ((a # A) ! i, (a # A) ! j)) (map (Pair 0) [1..<Suc (length A)]) =
      map (Pair a) A"
    by (simp add: comp_def map_Suc_upt [symmetric] map_nth del: upt_Suc)
  then show ?thesis
    by (simp add: CombinationsStrictlyUpperIndexPolicy_def StrictlyUpperIndex_Suc comp_def
        case_prod_unfold del: upt_Suc)
qed

lemma CombinationsStrictlyUpperIndexPolicy_Nil:
  "CombinationsStrictlyUpperIndexPolicy [] [] = []"
  by (simp add: CombinationsStrictlyUpperIndexPolicy_def StrictlyUpperIndex_def)

lemma default_gates:
  "IsParticleNSigma_of default_config 2 pion1 = Inr True"
  "IsParticleNSigma_of default_config 2 pion2 = Inr True"
  "IsParticleNSigma_of default_config 2 pion3 = Inr True"
  "IsParticleNSigma_of default_config 2 a_positive_kaon = Inr False"
  "IsParticleNSigma_of default_config 1 pion1 = Inr True"
  "IsParticleNSigma_of default_config 1 pion1b = Inr True"
  "IsParticleNSigma_of default_config 2 pion1b = Inr True"
  "IsParticleNSigma_of default_config 2 antipion1 = Inr True"
  "IsParticleNSigma_of default_config 2 antipion1b = Inr True"
  by (simp_all add: pid_defs default_config_def pion_defs a_positive_kaon_def pion1b_def
      antipion1_def antipion1b_def)

lemma default_slices:
  "sliceByCached (partsOne default_config example_framework
      [pion1, antipion1, pion1b, pion2, antipion1b]) (col_globalIndex E1) = [pion1, pion1b]"
  "sliceByCached (partsTwo default_config example_framework
      [pion1, antipion1, pion1b, pion2, antipion1b]) (col_globalIndex E1) = [antipion1, antipion1b]"
  by (simp_all add: sliceByCached_def partsOne_def partsTwo_def default_config_def
      example_framework_def E_defs pion_defs pion1b_def antipion1_def antipion1b_def)

lemma example_framework_more:
  "isCleanPair example_framework p1 p2 parts = True"
  "Rndm example_framework n = (if even n then 0.7 else 0.3)"
  by (simp_all add: example_framework_def)

lemma default_flags:
  "ConfIsCPR default_config" "\<not> cfgProcessPM default_config" "cfgProcessPP default_config"
  "cfgProcessMM default_config"
  by (simp_all add: default_config_def)

text \<open>
  C6. For every same-event, same-sign (StrictUpper) pair that passes PID gating,
  close-pair rejection and pair cleaning, exactly one accumulator fill occurs: a
  pseudo-random draw selects the fill with \<open>(p1, p2)\<close> when it is above 0.5 and the fill
  with \<open>(p2, p1)\<close> otherwise; the pair is never filled twice and never dropped.
  \<^verbatim>\<open>doSameEvent\<close> with \<^verbatim>\<open>ContType\<close> 2 or 3 never aborts; after the QA calls it
  makes one fill for each passing pair of the StrictUpper enumeration of
  \<^verbatim>\<open>groupPartsOne\<close>, in the order of the enumeration, each with a draw of its own, and
  no other call. \<^verbatim>\<open>processSameEvent\<close> does so for the positive particles of the
  collision when \<^verbatim>\<open>cfgProcessPP\<close> is set and then for the negative ones when
  \<^verbatim>\<open>cfgProcessMM\<close> is set, after whatever the opposite-sign channel has called.
\<close>

theorem same_sign_pairs_filled_once:
  "(ContType = 2 \<or> ContType = 3 \<longrightarrow>
      doSameEvent cfg fw groupPartsOne groupPartsTwo parts magFieldTesla multCol ContType fillQA s =
        Inr (s\<lparr>calls := calls s
               @ same_sign_QA cfg ContType fillQA groupPartsOne groupPartsTwo
               @ same_sign_fills cfg fw multCol ContType (draws s)
                   (same_sign_passing cfg fw parts magFieldTesla groupPartsOne),
             draws := draws s
               + length (same_sign_passing cfg fw parts magFieldTesla groupPartsOne)\<rparr>))
   \<and> processSameEvent cfg fw col parts s =
       and_then
         (if cfgProcessPM cfg then
            doSameEvent cfg fw (sliceByCached (partsOne cfg fw parts) (col_globalIndex col))
              (sliceByCached (partsTwo cfg fw parts) (col_globalIndex col)) parts (magField col)
              (multNtr col) 1 True (fillCollision fw col s)
          else Inr (fillCollision fw col s))
         (\<lambda>s1. Inr
            (let gOne = sliceByCached (partsOne cfg fw parts) (col_globalIndex col);
                 gTwo = sliceByCached (partsTwo cfg fw parts) (col_globalIndex col);
                 passPP = (if cfgProcessPP cfg
                           then same_sign_passing cfg fw parts (magField col) gOne else []);
                 passMM = (if cfgProcessMM cfg
                           then same_sign_passing cfg fw parts (magField col) gTwo else [])
             in s1\<lparr>calls := calls s1
                    @ (if cfgProcessPP cfg then same_sign_QA cfg 2 True gOne gOne else [])
                    @ same_sign_fills cfg fw (multNtr col) 2 (draws s1) passPP
                    @ (if cfgProcessMM cfg then same_sign_QA cfg 3 True gTwo gTwo else [])
                    @ same_sign_fills cfg fw (multNtr col) 3 (draws s1 + length passPP) passMM,
                  draws := draws s1 + length passPP + length passMM\<rparr>))"
proof (intro conjI impI)
  assume "ContType = 2 \<or> ContType = 3"
  then show "doSameEvent cfg fw groupPartsOne groupPartsTwo parts magFieldTesla multCol ContType fillQA s =
        Inr (s\<lparr>calls := calls s
               @ same_sign_QA cfg ContType fillQA groupPartsOne groupPartsTwo
               @ same_sign_fills cfg fw multCol ContType (draws s)
                   (same_sign_passing cfg fw parts magFieldTesla groupPartsOne),
             draws := draws s
               + length (same_sign_passing cfg fw parts magFieldTesla groupPartsOne)\<rparr>)"
    by (rule doSameEvent_same_sign)
next
  have two: "(2::int) = 2 \<or> (2::int) = 3" and three: "(3::int) = 2 \<or> (3::int) = 3"
    by simp_all
  show "processSameEvent cfg fw col parts s =
       and_then
         (if cfgProcessPM cfg then
            doSameEvent cfg fw (sliceByCached (partsOne cfg fw parts) (col_globalIndex col))
              (sliceByCached (partsTwo cfg fw parts) (col_globalIndex col)) parts (magField col)
              (multNtr col) 1 True (fillCollision fw col s)
          else Inr (fillCollision fw col s))
         (\<lambda>s1. Inr
            (let gOne = sliceByCached (partsOne cfg fw parts) (col_globalIndex col);
                 gTwo = sliceByCached (partsTwo cfg fw parts) (col_globalIndex col);
                 passPP = (if cfgProcessPP cfg
                           then same_sign_passing cfg fw parts (magField col) gOne else []);
                 passMM = (if cfgProcessMM cfg
                           then same_sign_passing cfg fw parts (magField col) gTwo else [])
             in s1\<lparr>calls := calls s1
                    @ (if cfgProcessPP cfg then same_sign_QA cfg 2 True gOne gOne else [])
                    @ same_sign_fills cfg fw (multNtr col) 2 (draws s1) passPP
                    @ (if cfgProcessMM cfg then same_sign_QA cfg 3 True gTwo gTwo else [])
                    @ same_sign_fills cfg fw (multNtr col) 3 (draws s1 + length passPP) passMM,
                  draws := draws s1 + length passPP + length passMM\<rparr>))"
    unfolding processSameEvent_def Let_def
    by (simp add: and_then_def doSameEvent_same_sign [OF two] doSameEvent_same_sign [OF three]
        split: sum.splits)
qed

theorem same_sign_pairs_filled_once_witness:
  "((2::int) = 2 \<or> (2::int) = 3)
   \<and> doSameEvent default_config example_framework [pion1, pion2, a_positive_kaon, pion3] []
        [] 0.5 10 2 False empty_state =
      Inr \<lparr>calls = [fill_mult_NumDen sameEventMultContPP pion1 pion2 same 2 10 0.4,
                     fill_mult_NumDen sameEventMultContPP pion3 pion1 same 2 10 0.4,
                     fill_mult_NumDen sameEventMultContPP pion2 pion3 same 2 10 0.4],
            draws = 3\<rparr>
   \<and> processSameEvent default_config example_framework E1
        [pion1, antipion1, pion1b, pion2, antipion1b] empty_state =
      Inr \<lparr>calls = [fill_hSECollisionBins 0, eventHisto_fillQA E1,
                     trackHistoPartOne_fillQA pion1, trackHistoPartOne_fillQA pion1b,
                     fill_mult_NumDen sameEventMultContPP pion1 pion1b same 2 10 0.4,
                     trackHistoPartTwo_fillQA antipion1, trackHistoPartTwo_fillQA antipion1b,
                     fill_mult_NumDen sameEventMultContMM antipion1b antipion1 same 2 10 0.4],
            draws = 2\<rparr>"
  using same_sign_pairs_filled_once [where ContType = 2 and cfg = default_config
      and fw = example_framework and groupPartsOne = "[pion1, pion2, a_positive_kaon, pion3]"
      and groupPartsTwo = "[]" and parts = "[]" and magFieldTesla = "0.5" and multCol = 10
      and fillQA = False and s = empty_state and col = E1]
    same_sign_pairs_filled_once [where ContType = 2 and cfg = default_config
      and fw = example_framework and parts = "[pion1, antipion1, pion1b, pion2, antipion1b]"
      and s = empty_state and col = E1]
  by (simp add: same_sign_passing_def CombinationsStrictlyUpperIndexPolicy_Cons
      CombinationsStrictlyUpperIndexPolicy_Nil passes_same_event_cuts_def default_gates
      default_slices default_flags example_framework_simps example_framework_more
      same_sign_fill_def same_sign_QA_def fillCollision_def emit_def and_then_def
      example_collisions empty_state_def Let_def)

section \<open>Covariance\<close>

text \<open>
  What one call of \<^verbatim>\<open>processCov\<close> does: for the first enabled channel in the order MM,
  PP, PM it calls \<^verbatim>\<open>fill_mult_kT_Cov\<close> once on the same-event and once on the
  mixed-event container with \<^verbatim>\<open>JMax\<close> moments, and nothing when no channel is
  enabled. \<^verbatim>\<open>JMax\<close> is \<open>(ConfLMax + 1)\<^sup>2\<close> as long as that fits a 32-bit \<^verbatim>\<open>int\<close>.
\<close>

lemma processCov_calls:
  "processCov cfg col parts s =
     Inr (s\<lparr>calls := calls s @
       (let JMax = int32 ((ConfLMax cfg + 1) * (ConfLMax cfg + 1))
        in if cfgProcessMM cfg then
             [fill_mult_kT_Cov sameEventMultContMM same JMax,
              fill_mult_kT_Cov mixedEventMultContMM mixed JMax]
           else if cfgProcessPP cfg then
             [fill_mult_kT_Cov sameEventMultContPP same JMax,
              fill_mult_kT_Cov mixedEventMultContPP mixed JMax]
           else if cfgProcessPM cfg then
             [fill_mult_kT_Cov sameEventMultCont same JMax,
              fill_mult_kT_Cov mixedEventMultCont mixed JMax]
           else [])\<rparr>)"
  by (simp add: processCov_def emit_def Let_def)

lemma int32_in_range: "- (2 ^ 31) \<le> x \<Longrightarrow> x < 2 ^ 31 \<Longrightarrow> int32 x = x"
  unfolding int32_def by (simp add: sint_sbintrunc' signed_take_bit_int_eq_self)

lemma JMax_in_range:
  assumes "0 \<le> l" and "l < 46340"
  shows "int32 ((l + 1) * (l + 1)) = (l + 1)\<^sup>2"
proof -
  have "(l + 1) * (l + 1) \<le> 46340 * 46340"
    using assms by (intro mult_mono) simp_all
  then have hi: "(l + 1) * (l + 1) < 2 ^ 31"
    by simp
  have "0 \<le> (l + 1) * (l + 1)"
    by simp
  then have lo: "- (2 ^ 31) \<le> (l + 1) * (l + 1)"
    by (rule order_trans [rotated]) simp
  have "int32 ((l + 1) * (l + 1)) = (l + 1) * (l + 1)"
    using lo hi by (rule int32_in_range)
  then show ?thesis
    by (simp add: power2_eq_square)
qed

text \<open>
  The process functions that fill the pair containers make no call of
  \<^verbatim>\<open>fill_mult_kT_Cov\<close>: neither the QA loops nor the bodies of the pair loops do, so
  a loop over any number of pairs leaves the covariance calls as they were.
\<close>

lemma for_each_preserves:
  assumes "\<And>x s s'. body x s = Inr s' \<Longrightarrow> f s' = f s"
    and "for_each body xs s = Inr s'"
  shows "f s' = f s"
  using assms(2)
proof (induction xs arbitrary: s)
  case Nil
  then show ?case by simp
next
  case (Cons x xs)
  then obtain s1 where b: "body x s = Inr s1" and r: "for_each body xs s1 = Inr s'"
    by (auto split: sum.splits)
  from Cons.IH [OF r] assms(1) [OF b] show ?case
    by simp
qed

lemma QA_no_covariance:
  "doSameEvent_QA_One cfg part s = Inr s' \<Longrightarrow> covariance_calls s' = covariance_calls s"
  "doSameEvent_QA_Two cfg part s = Inr s' \<Longrightarrow> covariance_calls s' = covariance_calls s"
  by (auto simp: doSameEvent_QA_One_def doSameEvent_QA_Two_def covariance_calls_def emit_def
      split: sum.splits if_splits)

lemma pair_Full_no_covariance:
  "doSameEvent_pair_Full cfg fw parts b m pair s = Inr s'
     \<Longrightarrow> covariance_calls s' = covariance_calls s"
  by (auto simp: doSameEvent_pair_Full_def covariance_calls_def emit_def
      split: sum.splits if_splits prod.splits)

lemma pair_StrictlyUpper_no_covariance:
  "doSameEvent_pair_StrictlyUpper cfg fw parts b m ContType pair s = Inr s'
     \<Longrightarrow> covariance_calls s' = covariance_calls s"
  by (auto simp: doSameEvent_pair_StrictlyUpper_def covariance_calls_def emit_def Let_def
      split: sum.splits if_splits prod.splits)

lemma doMixedEvent_pair_no_covariance:
  "doMixedEvent_pair cfg fw parts b m ContType pair s = Inr s'
     \<Longrightarrow> covariance_calls s' = covariance_calls s"
  by (auto simp: doMixedEvent_pair_def covariance_calls_def emit_def Let_def
      split: sum.splits if_splits prod.splits)

lemma doMixedEvent_no_covariance:
  "doMixedEvent cfg fw g1 g2 parts b m ContType s = Inr s'
     \<Longrightarrow> covariance_calls s' = covariance_calls s"
  unfolding doMixedEvent_def
  by (erule for_each_preserves [rotated]) (rule doMixedEvent_pair_no_covariance)

lemma doSameEvent_no_covariance:
  assumes "doSameEvent cfg fw g1 g2 parts b m ContType fillQA s = Inr s'"
  shows "covariance_calls s' = covariance_calls s"
  using assms unfolding doSameEvent_def
  by (auto simp: and_then_def split: sum.splits if_splits
      dest!: for_each_preserves [where f = covariance_calls, rotated]
      dest: QA_no_covariance pair_Full_no_covariance pair_StrictlyUpper_no_covariance)

lemma processSameEvent_no_covariance:
  assumes "processSameEvent cfg fw col parts s = Inr s'"
  shows "covariance_calls s' = covariance_calls s"
proof -
  have f: "covariance_calls (fillCollision fw col s) = covariance_calls s"
    by (simp add: fillCollision_def covariance_calls_def emit_def)
  from assms show ?thesis
    unfolding processSameEvent_def Let_def
    by (auto simp: and_then_def f split: sum.splits if_splits
        dest!: doSameEvent_no_covariance)
qed

lemma processMixedEvent_pair_no_covariance:
  assumes "processMixedEvent_pair cfg fw parts cpair s = Inr s'"
  shows "covariance_calls s' = covariance_calls s"
proof -
  have f: "covariance_calls (emit (fill_hMECollisionBins k) s) = covariance_calls s" for k
    by (simp add: covariance_calls_def emit_def)
  from assms show ?thesis
    unfolding processMixedEvent_pair_def Let_def
    by (auto simp: and_then_def f split: sum.splits if_splits prod.splits
        dest!: doMixedEvent_no_covariance)
qed

lemma processMixedEvent_no_covariance:
  "processMixedEvent cfg fw cols parts s = Inr s'
     \<Longrightarrow> covariance_calls s' = covariance_calls s"
  unfolding processMixedEvent_def
  by (erule for_each_preserves [rotated]) (rule processMixedEvent_pair_no_covariance)

end
